theory Spec2Isabelle
  imports Complex_Main "HOL-Library.Sublist" "HOL-Library.Monad_Syntax"
begin

section \<open>Strings\<close>

text \<open>
  Text is held as its UTF-8 bytes. Python's \<^verbatim>\<open>str.upper\<close> follows the Unicode tables and
  is taken from the environment (\<open>str_upper\<close> below); on ASCII text it is
  \<open>ascii_upper\<close>: the letters a..z are mapped to A..Z and every other byte is left
  alone. An ASCII needle occurs in a text exactly when its bytes occur in the text's
  bytes, so containment and suffix tests are made on the bytes.
\<close>

definition upper_char :: "char \<Rightarrow> char" where
  \<comment> \<open>for a letter a..z (codes 97..122) clearing the bit of weight 32 subtracts 32\<close>
  "upper_char c =
     (let n = (of_char c :: nat) in
      if 97 \<le> n \<and> n \<le> 122 then
        (case c of Char b0 b1 b2 b3 b4 b5 b6 b7 \<Rightarrow> Char b0 b1 b2 b3 b4 False b6 b7)
      else c)"

definition ascii_upper :: "string \<Rightarrow> string" where
  "ascii_upper s = map upper_char s"

text \<open>\<^verbatim>\<open>needle in hay\<close>: the needle occurs at some position of the haystack.\<close>

fun contains :: "string \<Rightarrow> string \<Rightarrow> bool" where
  "contains needle [] = (needle = [])"
| "contains needle (c # cs) = (prefix needle (c # cs) \<or> contains needle cs)"

text \<open>\<^verbatim>\<open>s.endswith(suf)\<close>\<close>

definition endswith :: "string \<Rightarrow> string \<Rightarrow> bool" where
  "endswith s suf = suffix suf s"

section \<open>Market hours (users/market_hours.py)\<close>

text \<open>A \<^verbatim>\<open>datetime.time\<close>; Python orders times by (hour, minute, second, microsecond).\<close>

record py_time =
  hour :: nat
  minute :: nat
  second :: nat
  microsecond :: nat

definition time_lt :: "py_time \<Rightarrow> py_time \<Rightarrow> bool" where
  "time_lt a b =
     (hour a < hour b \<or> (hour a = hour b \<and>
       (minute a < minute b \<or> (minute a = minute b \<and>
         (second a < second b \<or> (second a = second b \<and> microsecond a < microsecond b))))))"

definition time_ge :: "py_time \<Rightarrow> py_time \<Rightarrow> bool" where
  "time_ge a b = (\<not> time_lt a b)"

definition mk_time :: "nat \<Rightarrow> nat \<Rightarrow> py_time" where
  "mk_time h m = \<lparr>hour = h, minute = m, second = 0, microsecond = 0\<rparr>"

text \<open>
  A \<^verbatim>\<open>datetime\<close> as the caller passes it: its \<^verbatim>\<open>tzinfo\<close> (absent for a naive value) and
  the instant it denotes. What the gate reads of a datetime once it is expressed in a zone
  is its \<^verbatim>\<open>weekday()\<close> (Monday is 0, Sunday is 6) and its \<^verbatim>\<open>time()\<close>.
\<close>

record datetime =
  tzinfo :: "string option"
  instant :: int

record local_datetime =
  weekday :: nat
  time_of_day :: py_time

text \<open>
  The answer of \<^verbatim>\<open>service.get_market_status(market)\<close>: the call raises, returns
  \<^verbatim>\<open>None\<close>, or returns a dict of which the gate reads \<^verbatim>\<open>isOpen\<close> and \<^verbatim>\<open>holiday\<close>
  (a missing or empty holiday is \<open>None\<close>).
\<close>

datatype market_status = Raises | Unavailable | Status bool "string option"

text \<open>
  What the gate takes from outside the repository: \<^verbatim>\<open>str.upper\<close>, the time-zone
  database (\<^verbatim>\<open>astimezone\<close>), the clock (\<^verbatim>\<open>datetime.now(tz)\<close>) and the market-status
  service.
\<close>

record gate_env =
  str_upper :: "string \<Rightarrow> string"
  astimezone :: "string \<Rightarrow> datetime \<Rightarrow> local_datetime"
  datetime_now :: "string \<Rightarrow> local_datetime"
  get_market_status :: "string \<Rightarrow> market_status"

record schedule =
  sched_name :: string
  sched_timezone :: string
  sched_open :: py_time
  sched_close :: py_time
  sched_display_hours :: string

definition schedule_US :: schedule where
  "schedule_US = \<lparr>sched_name = ''US (NYSE)'', sched_timezone = ''America/New_York'',
     sched_open = mk_time 9 30, sched_close = mk_time 16 0,
     sched_display_hours = ''9:30 AM - 4:00 PM ET''\<rparr>"

definition schedule_IN :: schedule where
  "schedule_IN = \<lparr>sched_name = ''India (NSE)'', sched_timezone = ''Asia/Kolkata'',
     sched_open = mk_time 9 15, sched_close = mk_time 15 30,
     sched_display_hours = ''9:15 AM - 3:30 PM IST''\<rparr>"

text \<open>\<^verbatim>\<open>MARKET_SCHEDULES.get(market, MARKET_SCHEDULES['US'])\<close>\<close>

definition MARKET_SCHEDULES_get :: "string \<Rightarrow> schedule" where
  "MARKET_SCHEDULES_get market =
     (if market = ''US'' then schedule_US else if market = ''IN'' then schedule_IN
      else schedule_US)"

text \<open>
  The dict the gate returns. \<open>holiday\<close> is \<open>None\<close> when the dict has no such key
  and \<open>Some h\<close> when it has it with value \<open>h\<close>.
\<close>

record gate_result =
  is_open :: bool
  reason :: string
  market_name :: string
  display_hours :: string
  holiday :: "string option option"
  source :: string

text \<open>
  The first lines of the schedule check: the current time in the zone when no \<^verbatim>\<open>now\<close> is
  given, a naive \<^verbatim>\<open>now\<close> read as UTC, and the result expressed in the market's zone.
\<close>

definition localize :: "gate_env \<Rightarrow> string \<Rightarrow> datetime option \<Rightarrow> local_datetime" where
  "localize env tz now =
     (case now of
        None \<Rightarrow> datetime_now env tz
      | Some n \<Rightarrow>
          if tzinfo n = None then astimezone env tz (n\<lparr>tzinfo := Some ''UTC''\<rparr>)
          else astimezone env tz n)"

definition is_market_open_schedule :: "gate_env \<Rightarrow> string \<Rightarrow> datetime option \<Rightarrow> gate_result" where
  "is_market_open_schedule env market now =
     (let sched = MARKET_SCHEDULES_get market;
          tz = sched_timezone sched;
          now' = localize env tz now;
          mname = sched_name sched;
          hours = sched_display_hours sched
      in if weekday now' \<ge> 5 then
           \<lparr>is_open = False,
            reason = mname @ '' is closed on weekends. Trading hours: '' @ hours @ '', Mon-Fri.'',
            market_name = mname, display_hours = hours, holiday = None, source = ''schedule''\<rparr>
         else if time_lt (time_of_day now') (sched_open sched)
                 \<or> time_ge (time_of_day now') (sched_close sched) then
           \<lparr>is_open = False,
            reason = mname @ '' is closed. Trading hours: '' @ hours @ '', Mon-Fri.'',
            market_name = mname, display_hours = hours, holiday = None, source = ''schedule''\<rparr>
         else
           \<lparr>is_open = True, reason = mname @ '' is open'',
            market_name = mname, display_hours = hours, holiday = None, source = ''schedule''\<rparr>)"

definition crypto_open :: gate_result where
  "crypto_open = \<lparr>is_open = True, reason = ''Crypto markets are always open'',
     market_name = ''Crypto'', display_hours = ''24/7'', holiday = None, source = ''local''\<rparr>"

definition is_market_open :: "gate_env \<Rightarrow> string \<Rightarrow> string \<Rightarrow> datetime option \<Rightarrow> gate_result" where
  "is_market_open env market symbol now =
     (if contains ''-USD'' (str_upper env symbol) then crypto_open
      else
        let sched = MARKET_SCHEDULES_get market;
            mname = sched_name sched;
            hours = sched_display_hours sched
        in if now \<noteq> None then is_market_open_schedule env market now
           else case get_market_status env market of
                  Status opn hol \<Rightarrow>
                    if opn then
                      \<lparr>is_open = True, reason = mname @ '' is open'',
                       market_name = mname, display_hours = hours, holiday = None,
                       source = ''finnhub''\<rparr>
                    else
                      \<lparr>is_open = False,
                       reason = (case hol of
                          Some h \<Rightarrow> mname @ '' is closed for '' @ h @ ''. Trading hours: ''
                                      @ hours @ '', Mon-Fri.''
                        | None \<Rightarrow> mname @ '' is closed. Trading hours: '' @ hours @ '', Mon-Fri.''),
                       market_name = mname, display_hours = hours, holiday = Some hol,
                       source = ''finnhub''\<rparr>
                | _ \<Rightarrow> is_market_open_schedule env market None)"

definition is_symbol_valid_for_market ::
  "gate_env \<Rightarrow> string \<Rightarrow> string \<Rightarrow> bool \<times> string" where
  "is_symbol_valid_for_market env symbol market =
     (let up = str_upper env symbol in
      if contains ''-USD'' up then (True, '''')
      else
        let is_indian_symbol = (endswith up ''.NS'' \<or> endswith up ''.BO'') in
        if market = ''IN'' \<and> \<not> is_indian_symbol then
          (False, symbol @ '' is not available in the India (NSE/BSE) market'')
        else if market = ''US'' \<and> is_indian_symbol then
          (False, symbol @ '' is not available in the US market'')
        else (True, ''''))"

section \<open>Ledger data (users/models.py)\<close>

text \<open>
  A \<^verbatim>\<open>Decimal\<close> is a rational number. The views compute with Python's default
  decimal context: the result of \<^verbatim>\<open>+\<close>, \<^verbatim>\<open>-\<close>, \<^verbatim>\<open>*\<close> and \<^verbatim>\<open>/\<close> is the exact result
  rounded to 28 significant digits, half to even (\<open>context_round\<close>); comparisons and
  \<^verbatim>\<open>Decimal(str(...))\<close> are exact. The exponent limits of the context are not modelled.
  When a row is saved, a \<^verbatim>\<open>DecimalField(max_digits, decimal_places)\<close> column takes the
  value rounded to \<open>decimal_places\<close> places, half to even, as Django's
  \<^verbatim>\<open>format_number\<close> does (\<^verbatim>\<open>value.quantize(Decimal(1).scaleb(-decimal_places), context)\<close>
  with \<^verbatim>\<open>context.prec = max_digits\<close>); \<open>quantize\<close> is \<open>None\<close> where that call raises
  because the rounded value has more than \<open>max_digits\<close> digits. A decimal column that
  a view reads and does not assign is written back as it was read. The lengths of the
  text columns are not modelled. A \<^verbatim>\<open>float\<close> is the rational number it denotes; the
  rounding of \<^verbatim>\<open>float(...)\<close> and of the float operations to binary64 is the function
  \<open>to_float\<close> of the environment. Requests are processed one after the other; each
  view runs inside \<^verbatim>\<open>transaction.atomic\<close>, so a returned response commits what the view
  has saved and a raised exception commits nothing.
\<close>

definition round_half_even :: "rat \<Rightarrow> int" where
  "round_half_even x =
     (let f = \<lfloor>x\<rfloor>; d = x - of_int f
      in if d < 1 / 2 then f else if 1 / 2 < d then f + 1
         else if even f then f else f + 1)"

text \<open>The number of decimal digits of a positive integer, \<^verbatim>\<open>len(str(n))\<close>.\<close>

function digits :: "int \<Rightarrow> nat" where
  "digits n = (if n < 10 then 1 else Suc (digits (n div 10)))"
  by auto

termination
  by (relation "measure nat") auto

declare digits.simps [simp del]

definition pow10 :: "int \<Rightarrow> rat" where
  "pow10 e = (if 0 \<le> e then 10 ^ nat e else 1 / 10 ^ nat (- e))"

text \<open>
  \<^verbatim>\<open>Decimal.adjusted()\<close> of a number other than zero: the exponent of its first digit,
  that is the \<open>k\<close> with \<open>10 ^ k \<le> \<bar>x\<bar> < 10 ^ (k + 1)\<close>. A fraction whose numerator has
  \<open>a\<close> digits and whose denominator has \<open>b\<close> lies between \<open>10 ^ (a - b - 1)\<close> and
  \<open>10 ^ (a - b + 1)\<close>.
\<close>

definition adjusted :: "rat \<Rightarrow> int" where
  "adjusted x =
     (let (p, q) = quotient_of \<bar>x\<bar>;
          k = int (digits p) - int (digits q)
      in if pow10 k \<le> \<bar>x\<bar> then k else k - 1)"

definition context_round :: "rat \<Rightarrow> rat" where
  "context_round x =
     (if x = 0 then 0
      else let e = adjusted x - 27
           in of_int (round_half_even (x / pow10 e)) * pow10 e)"

definition decimal_add :: "rat \<Rightarrow> rat \<Rightarrow> rat" where
  "decimal_add x y = context_round (x + y)"

definition decimal_sub :: "rat \<Rightarrow> rat \<Rightarrow> rat" where
  "decimal_sub x y = context_round (x - y)"

definition decimal_mul :: "rat \<Rightarrow> rat \<Rightarrow> rat" where
  "decimal_mul x y = context_round (x * y)"

text \<open>For a divisor other than zero; the callers test for zero first.\<close>

definition decimal_div :: "rat \<Rightarrow> rat \<Rightarrow> rat" where
  "decimal_div x y = context_round (x / y)"

definition quantize :: "nat \<Rightarrow> nat \<Rightarrow> rat \<Rightarrow> rat option" where
  "quantize max_digits decimal_places x =
     (let n = round_half_even (x * 10 ^ decimal_places)
      in if \<bar>n\<bar> < 10 ^ max_digits then Some (of_int n / 10 ^ decimal_places) else None)"

text \<open>
  The columns: money (\<^verbatim>\<open>buying_power\<close>, the \<^verbatim>\<open>total\<close> of a trade, the amounts of a
  transfer) has 2 places, shares have 8, prices (\<^verbatim>\<open>avg_cost\<close>, \<^verbatim>\<open>price\<close>,
  \<^verbatim>\<open>limit_price\<close>) have 6; all have 20 digits.
\<close>

definition store_money :: "rat \<Rightarrow> rat option" where
  "store_money = quantize 20 2"

definition store_shares :: "rat \<Rightarrow> rat option" where
  "store_shares = quantize 20 8"

definition store_price :: "rat \<Rightarrow> rat option" where
  "store_price = quantize 20 6"

datatype side = BUY | SELL

datatype order_status = PENDING | FILLED | CANCELLED | EXPIRED

record user_settings =
  us_market :: string
  us_currency :: string

record holding =
  h_symbol :: string
  h_name :: string
  h_shares :: rat
  h_avg_cost :: rat
  h_currency :: string

record trade =
  t_symbol :: string
  t_name :: string
  t_trade_type :: side
  t_shares :: rat
  t_price :: rat
  t_total :: rat
  t_currency :: string
  t_executed_at :: nat

record limit_order =
  o_symbol :: string
  o_name :: string
  o_trade_type :: side
  o_shares :: rat
  o_limit_price :: rat
  o_currency :: string
  o_status :: order_status
  o_created_at :: nat
  o_filled_at :: "nat option"

record achievement =
  a_id :: string
  requirement_type :: string
  requirement_value :: int

text \<open>
  One user's rows: the \<^verbatim>\<open>UserProfile\<close> columns the core reads and writes, the
  optional \<^verbatim>\<open>UserSettings\<close> row, and the user's rows of the \<^verbatim>\<open>Holding\<close>, \<^verbatim>\<open>Trade\<close>,
  \<^verbatim>\<open>LimitOrder\<close> (keyed by primary key), \<^verbatim>\<open>Watchlist\<close> and \<^verbatim>\<open>UserAchievement\<close>
  (the achievement ids) tables.
\<close>

record account =
  username :: string
  buying_power :: rat
  xp :: nat
  level :: nat
  rank :: string
  settings :: "user_settings option"
  holdings :: "holding list"
  trades :: "trade list"
  limit_orders :: "nat \<rightharpoonup> limit_order"
  watchlist :: "string list"
  user_achievements :: "string list"

text \<open>
  The rejections of the views, named by kind: \<open>InvalidParameters\<close> is the response
  "Invalid trade parameters" / "Invalid order parameters" / "Invalid current price",
  \<open>MarketClosed\<close> carries the gate's reason, \<open>InvalidMarketForSymbol\<close> the
  validator's message, \<open>InsufficientFunds\<close> is "Insufficient buying power",
  \<open>NoHoldingForSymbol s\<close> is "No holdings for s", \<open>InsufficientShares\<close> is
  "Insufficient shares", \<open>OrderNotPendingOrNotFound\<close> is "Order not found or not
  pending", \<open>PriceConditionNotMet sd\<close> is "Price condition not met for sd".
  \<open>IntegrityError\<close> is the exception of an insert whose primary key exists and
  \<open>DataError\<close> the exception of a save whose value does not fit its column; both
  end the request with nothing committed. The remaining ones are the rejections of the
  transfer view.
\<close>

datatype error =
    InvalidParameters
  | MarketClosed string
  | InvalidMarketForSymbol string
  | InsufficientFunds
  | NoHoldingForSymbol string
  | InsufficientShares
  | OrderNotPendingOrNotFound
  | PriceConditionNotMet side
  | IntegrityError
  | DataError
  | NotAuthenticated
  | InvalidAmount
  | AmountNotPositive
  | RecipientRequired
  | SelfTransfer
  | UserNotFound
  | NotFriends
  | CurrencyConversionFailed

text \<open>
  What a request observes outside the user's rows: the market gate's environment,
  the \<^verbatim>\<open>Achievement\<close> table, \<^verbatim>\<open>timezone.now()\<close>, the \<^verbatim>\<open>uuid4\<close> drawn for a new
  limit order, and the rounding of a number to a \<^verbatim>\<open>float\<close>.
\<close>

record env =
  gate :: gate_env
  achievements :: "achievement list"
  timezone_now :: nat
  uuid4 :: nat
  to_float :: "rat \<Rightarrow> rat"

section \<open>XP and rank (users/xp_service.py)\<close>

definition RANK_LADDER :: "(nat \<times> string \<times> nat) list" where
  "RANK_LADDER =
     [(1, ''Retail Trader'', 0), (2, ''Day Trader'', 500), (3, ''Swing Trader'', 1500),
      (4, ''Floor Trader'', 4000), (5, ''Fund Manager'', 8000), (6, ''Market Maker'', 15000),
      (7, ''Wall Street Legend'', 30000)]"

definition XP_TRADE_EXECUTED :: nat where "XP_TRADE_EXECUTED = 25"
definition XP_FIRST_TRADE_BONUS :: nat where "XP_FIRST_TRADE_BONUS = 75"
definition XP_PROFITABLE_SELL :: nat where "XP_PROFITABLE_SELL = 50"
definition XP_ACHIEVEMENT_UNLOCKED :: nat where "XP_ACHIEVEMENT_UNLOCKED = 100"
definition XP_5_HOLDINGS :: nat where "XP_5_HOLDINGS = 150"
definition XP_10_HOLDINGS :: nat where "XP_10_HOLDINGS = 250"

definition get_rank_for_xp :: "nat \<Rightarrow> nat \<times> string" where
  "get_rank_for_xp x =
     foldl (\<lambda>result (lvl, title, required). if x \<ge> required then (lvl, title) else result)
       (1, ''Retail Trader'') RANK_LADDER"

definition award_xp :: "account \<Rightarrow> nat \<Rightarrow> account" where
  "award_xp user amount =
     (let x = xp user + amount;
          (new_level, new_rank) = get_rank_for_xp x
      in user\<lparr>xp := x, level := new_level, rank := new_rank\<rparr>)"

text \<open>Returns the XP gained and the updated user.\<close>

definition award_trade_xp ::
  "account \<Rightarrow> side \<Rightarrow> rat option \<Rightarrow> rat option \<Rightarrow> nat \<times> account" where
  "award_trade_xp user trade_type sell_price avg_buy_price =
     (let xp_gained = 0 + XP_TRADE_EXECUTED;
          trade_count = length (trades user);
          xp_gained = (if trade_count = 1 then xp_gained + XP_FIRST_TRADE_BONUS else xp_gained);
          xp_gained =
            (case (trade_type, sell_price, avg_buy_price) of
               (SELL, Some sp, Some ab) \<Rightarrow>
                 if sp > ab then xp_gained + XP_PROFITABLE_SELL else xp_gained
             | _ \<Rightarrow> xp_gained);
          holdings_count = length (holdings user);
          xp_gained =
            (if holdings_count = 5 then xp_gained + XP_5_HOLDINGS
             else if holdings_count = 10 then xp_gained + XP_10_HOLDINGS
             else xp_gained)
      in if xp_gained > 0 then (xp_gained, award_xp user xp_gained) else (xp_gained, user))"

definition award_achievement_xp :: "account \<Rightarrow> achievement list \<Rightarrow> nat \<times> account" where
  "award_achievement_xp user new_achievements =
     (if new_achievements = [] then (0, user)
      else let xp_gained = length new_achievements * XP_ACHIEVEMENT_UNLOCKED
           in (xp_gained, award_xp user xp_gained))"

section \<open>Achievements (users/achievement_service.py)\<close>

text \<open>
  \<^verbatim>\<open>sum(...)\<close> over decimals starts from the integer 0 and adds with the context's
  rounding. The loop over the sell trades skips a sell without earlier buys of its
  symbol.
\<close>

definition decimal_sum :: "rat list \<Rightarrow> rat" where
  "decimal_sum xs = foldl decimal_add 0 xs"

definition calculate_realized_profit :: "env \<Rightarrow> account \<Rightarrow> rat" where
  "calculate_realized_profit e user =
     (let sell_trades = filter (\<lambda>t. t_trade_type t = SELL) (trades user) in
      if sell_trades = [] then 0
      else to_float e (foldl (\<lambda>total_profit sell.
        let buy_trades = filter (\<lambda>t. t_trade_type t = BUY \<and> t_symbol t = t_symbol sell
                                    \<and> t_executed_at t \<le> t_executed_at sell) (trades user)
        in if buy_trades = [] then total_profit
           else let total_buy_cost =
                      decimal_sum (map (\<lambda>t. decimal_mul (t_price t) (t_shares t)) buy_trades);
                    total_buy_shares = decimal_sum (map t_shares buy_trades)
                in if total_buy_shares = 0 then total_profit
                   else let avg_buy_price = decimal_div total_buy_cost total_buy_shares;
                            profit = decimal_mul (decimal_sub (t_price sell) avg_buy_price)
                                       (t_shares sell)
                        in decimal_add total_profit profit)
        0 sell_trades))"

text \<open>The \<^verbatim>\<open>counts\<close> dict: only the needed requirement types are computed.\<close>

definition gather_counts :: "env \<Rightarrow> string set \<Rightarrow> account \<Rightarrow> (string \<rightharpoonup> rat)" where
  "gather_counts e needed_types user =
     (\<lambda>k. if k \<in> needed_types then
             (if k = ''trades_count'' then Some (of_nat (length (trades user)))
              else if k = ''holdings_count'' then Some (of_nat (length (holdings user)))
              else if k = ''watchlist_count'' then Some (of_nat (length (watchlist user)))
              else if k = ''profit_amount'' then Some (calculate_realized_profit e user)
              else None)
           else None)"

text \<open>\<^verbatim>\<open>bulk_create(..., ignore_conflicts=True)\<close>: a row that exists is not inserted again.\<close>

definition bulk_create_ignore_conflicts :: "string list \<Rightarrow> string list \<Rightarrow> string list" where
  "bulk_create_ignore_conflicts rows new =
     foldl (\<lambda>rs a. if a \<in> set rs then rs else rs @ [a]) rows new"

text \<open>Returns the newly unlocked achievements and the updated user.\<close>

definition check_achievements :: "env \<Rightarrow> account \<Rightarrow> achievement list \<times> account" where
  "check_achievements e user =
     (let unlocked_ids = set (user_achievements user);
          candidates = filter (\<lambda>a. a_id a \<notin> unlocked_ids \<and> requirement_type a \<noteq> ''special'')
                         (achievements e)
      in if candidates = [] then ([], user)
         else
           let needed_types = set (map requirement_type candidates);
               counts = gather_counts e needed_types user;
               newly_earned = filter (\<lambda>a.
                   (case counts (requirement_type a) of Some v \<Rightarrow> v | None \<Rightarrow> 0)
                     \<ge> of_int (requirement_value a)) candidates
           in if newly_earned = [] then ([], user)
              else (newly_earned,
                    user\<lparr>user_achievements :=
                      bulk_create_ignore_conflicts (user_achievements user) (map a_id newly_earned)\<rparr>))"

section \<open>Trade execution and limit orders (users/views.py)\<close>

subsection \<open>The holdings table\<close>

text \<open>
  \<^verbatim>\<open>Holding.objects.get(user=user, symbol=symbol)\<close>, \<^verbatim>\<open>holding.save()\<close> and
  \<^verbatim>\<open>holding.delete()\<close> on the user's rows; a row is identified by its symbol
  (\<^verbatim>\<open>unique_together = ['user', 'symbol']\<close>). \<open>save_holding\<close> is the save after
  the view has assigned shares and average cost, \<open>save_holding_shares\<close> the save
  after it has assigned the shares only.
\<close>

definition get_holding :: "holding list \<Rightarrow> string \<Rightarrow> holding option" where
  "get_holding hs symbol = find (\<lambda>h. h_symbol h = symbol) hs"

definition put_holding :: "holding list \<Rightarrow> holding \<Rightarrow> holding list" where
  "put_holding hs h = map (\<lambda>r. if h_symbol r = h_symbol h then h else r) hs"

definition save_holding :: "holding list \<Rightarrow> holding \<Rightarrow> holding list option" where
  "save_holding hs h =
     do { s \<leftarrow> store_shares (h_shares h);
          a \<leftarrow> store_price (h_avg_cost h);
          Some (put_holding hs (h\<lparr>h_shares := s, h_avg_cost := a\<rparr>)) }"

definition save_holding_shares :: "holding list \<Rightarrow> holding \<Rightarrow> holding list option" where
  "save_holding_shares hs h =
     do { s \<leftarrow> store_shares (h_shares h);
          Some (put_holding hs (h\<lparr>h_shares := s\<rparr>)) }"

definition delete_holding :: "holding list \<Rightarrow> holding \<Rightarrow> holding list" where
  "delete_holding hs h = filter (\<lambda>r. h_symbol r \<noteq> h_symbol h) hs"

text \<open>
  \<^verbatim>\<open>Holding.objects.get_or_create(user=user, symbol=symbol, defaults={'name': name,
  'shares': 0, 'avg_cost': 0, 'currency': currency})\<close>: the row, whether it was created,
  and the table.
\<close>

definition get_or_create_holding ::
  "holding list \<Rightarrow> string \<Rightarrow> string \<Rightarrow> string \<Rightarrow> holding \<times> bool \<times> holding list" where
  "get_or_create_holding hs symbol name currency =
     (case get_holding hs symbol of
        Some h \<Rightarrow> (h, False, hs)
      | None \<Rightarrow>
          (let h = \<lparr>h_symbol = symbol, h_name = name, h_shares = 0, h_avg_cost = 0,
                    h_currency = currency\<rparr>
           in (h, True, hs @ [h])))"

text \<open>
  The holding update of a buy, written twice in the views (market buy and fill of a
  BUY order) with the same text: create or fetch the row, set the weighted average
  cost, save. The division raises when the new number of shares is zero.
\<close>

definition buy_holding ::
  "holding list \<Rightarrow> string \<Rightarrow> string \<Rightarrow> string \<Rightarrow> rat \<Rightarrow> rat \<Rightarrow> holding list option" where
  "buy_holding hs symbol name currency shares price =
     (let (holding, created, hs1) = get_or_create_holding hs symbol name currency;
          holding' =
            (if \<not> created then
               let current_value = decimal_mul (h_shares holding) (h_avg_cost holding);
                   new_value = decimal_add current_value (decimal_mul shares price);
                   new_shares = decimal_add (h_shares holding) shares
               in if new_shares = 0 then None
                  else Some (holding\<lparr>h_avg_cost := decimal_div new_value new_shares,
                                     h_shares := new_shares\<rparr>)
             else Some (holding\<lparr>h_shares := shares, h_avg_cost := price, h_name := name\<rparr>))
      in case holding' of None \<Rightarrow> None | Some h \<Rightarrow> save_holding hs1 h)"

text \<open>
  The holding update of a sell, written twice as well (market sell and fill of a SELL
  order): decrement the shares, delete the row when the result equals zero, save it
  otherwise.
\<close>

definition sell_holding :: "holding list \<Rightarrow> holding \<Rightarrow> rat \<Rightarrow> holding list option" where
  "sell_holding hs holding shares =
     (let holding' = holding\<lparr>h_shares := decimal_sub (h_shares holding) shares\<rparr>
      in if h_shares holding' = 0 then Some (delete_holding hs holding')
         else save_holding_shares hs holding')"

subsection \<open>Recording the trade, achievements and XP\<close>

text \<open>
  \<^verbatim>\<open>Trade.objects.create\<close>: the object the view goes on with, which keeps the values
  that were passed, and the user with the row as it is stored.
\<close>

definition create_trade ::
  "env \<Rightarrow> account \<Rightarrow> string \<Rightarrow> string \<Rightarrow> side \<Rightarrow> rat \<Rightarrow> rat \<Rightarrow> rat \<Rightarrow> string
     \<Rightarrow> (trade \<times> account) option" where
  "create_trade e user symbol name trade_type shares price total' currency =
     do { s \<leftarrow> store_shares shares;
          p \<leftarrow> store_price price;
          m \<leftarrow> store_money total';
          let t = \<lparr>t_symbol = symbol, t_name = name, t_trade_type = trade_type,
                    t_shares = shares, t_price = price, t_total = total',
                    t_currency = currency, t_executed_at = timezone_now e\<rparr>;
          Some (t, user\<lparr>trades :=
                  trades user @ [t\<lparr>t_shares := s, t_price := p, t_total := m\<rparr>]\<rparr>) }"

text \<open>\<^verbatim>\<open>sum(...)\<close> over floats: each addition is rounded.\<close>

definition float_sum :: "env \<Rightarrow> rat list \<Rightarrow> rat" where
  "float_sum e xs = foldl (\<lambda>acc x. to_float e (acc + x)) 0 xs"

text \<open>
  The tail of both \<^verbatim>\<open>ExecuteTradeView.post\<close> and \<^verbatim>\<open>FillLimitOrderView.post\<close> after the
  trade row: check the achievements, compute the average buy price of a sell in floats,
  award XP.
\<close>

definition award_after_trade ::
  "env \<Rightarrow> account \<Rightarrow> side \<Rightarrow> string \<Rightarrow> rat \<Rightarrow> achievement list \<times> account" where
  "award_after_trade e user trade_type symbol price =
     (let (new_achievements, user1) = check_achievements e user;
          sell_price = (if trade_type = SELL then Some (to_float e price) else None);
          buy_trades = filter (\<lambda>t. t_symbol t = symbol \<and> t_trade_type t = BUY) (trades user1);
          avg_buy_price =
            (if trade_type = SELL \<and> buy_trades \<noteq> [] then
               let total_cost =
                     float_sum e (map (\<lambda>t. to_float e (to_float e (t_price t)
                                                         * to_float e (t_shares t))) buy_trades);
                   total_shares = float_sum e (map (\<lambda>t. to_float e (t_shares t)) buy_trades)
               in Some (if total_shares > 0 then to_float e (total_cost / total_shares) else 0)
             else None);
          (gained, user2) = award_trade_xp user1 trade_type sell_price avg_buy_price;
          (gained', user3) = award_achievement_xp user2 new_achievements
      in (new_achievements, user3))"

subsection \<open>Requests\<close>

text \<open>
  The JSON body of a trade or limit-order request. A missing \<^verbatim>\<open>symbol\<close> or \<^verbatim>\<open>type\<close> is
  the empty string, a missing \<^verbatim>\<open>shares\<close> or price is 0; \<^verbatim>\<open>name\<close> and \<^verbatim>\<open>currency\<close> have
  defaults that depend on the rest. The numbers are finite decimals, with as many
  places as the caller wrote.
\<close>

record trade_request =
  rq_symbol :: string
  rq_name :: "string option"
  rq_type :: string
  rq_shares :: rat
  rq_price :: rat
  rq_currency :: "string option"

definition side_of :: "string \<Rightarrow> side option" where
  "side_of s = (if s = ''BUY'' then Some BUY else if s = ''SELL'' then Some SELL else None)"

definition user_market :: "account \<Rightarrow> string" where
  "user_market user = (case settings user of Some s \<Rightarrow> us_market s | None \<Rightarrow> ''US'')"

text \<open>What a view returns when an exception ends it: the error, and the user as it was.\<close>

definition commit_or_rollback ::
  "account \<Rightarrow> ((error + 'a) \<times> account) option \<Rightarrow> (error + 'a) \<times> account" where
  "commit_or_rollback user r = (case r of None \<Rightarrow> (Inl DataError, user) | Some x \<Rightarrow> x)"

subsection \<open>ExecuteTradeView.post\<close>

definition execute_trade :: "env \<Rightarrow> account \<Rightarrow> trade_request \<Rightarrow> (error + trade) \<times> account" where
  "execute_trade e user data =
     (let symbol = str_upper (gate e) (rq_symbol data);
          name = (case rq_name data of Some n \<Rightarrow> n | None \<Rightarrow> symbol);
          shares = rq_shares data;
          price = rq_price data;
          currency = (case rq_currency data of Some c \<Rightarrow> c | None \<Rightarrow> ''USD'')
      in case side_of (str_upper (gate e) (rq_type data)) of
           None \<Rightarrow> (Inl InvalidParameters, user)
         | Some trade_type \<Rightarrow>
      if symbol = [] \<or> shares \<le> 0 \<or> price \<le> 0 then (Inl InvalidParameters, user)
      else
        let market_status = is_market_open (gate e) (user_market user) symbol None in
        if \<not> is_open market_status then (Inl (MarketClosed (reason market_status)), user)
        else if trade_type = BUY
                \<and> \<not> fst (is_symbol_valid_for_market (gate e) symbol (user_market user))
        then (Inl (InvalidMarketForSymbol
                     (snd (is_symbol_valid_for_market (gate e) symbol (user_market user)))), user)
        else
          let total' = decimal_mul shares price in
          if trade_type = BUY then
            if total' > buying_power user then (Inl InsufficientFunds, user)
            else commit_or_rollback user
              (do { bp \<leftarrow> store_money (decimal_sub (buying_power user) total');
                    hs \<leftarrow> buy_holding (holdings user) symbol name currency shares price;
                    (t, user3) \<leftarrow> create_trade e (user\<lparr>buying_power := bp, holdings := hs\<rparr>)
                                    symbol name trade_type shares price total' currency;
                    Some (Inr t, snd (award_after_trade e user3 trade_type symbol price)) })
          else
            (case get_holding (holdings user) symbol of
               None \<Rightarrow> (Inl (NoHoldingForSymbol symbol), user)
             | Some holding \<Rightarrow>
                 if shares > h_shares holding then (Inl InsufficientShares, user)
                 else commit_or_rollback user
                   (do { bp \<leftarrow> store_money (decimal_add (buying_power user) total');
                         hs \<leftarrow> sell_holding (holdings user) holding shares;
                         (t, user3) \<leftarrow> create_trade e (user\<lparr>buying_power := bp, holdings := hs\<rparr>)
                                         symbol name trade_type shares price total' currency;
                         Some (Inr t, snd (award_after_trade e user3 trade_type symbol price)) })))"

subsection \<open>LimitOrdersView.post\<close>

text \<open>
  \<^verbatim>\<open>LimitOrder.objects.create\<close>: the primary key is the \<^verbatim>\<open>uuid4\<close> drawn; inserting a
  key that exists raises, and the transaction (the reservation included) is rolled back.
  The response shows the order with the values that were passed; the row has them at the
  scale of its columns.
\<close>

definition create_order ::
  "env \<Rightarrow> account \<Rightarrow> limit_order \<Rightarrow> ((error + limit_order) \<times> account) option" where
  "create_order e user order =
     do { s \<leftarrow> store_shares (o_shares order);
          p \<leftarrow> store_price (o_limit_price order);
          if uuid4 e \<in> dom (limit_orders user) then None
          else Some (Inr order,
                     user\<lparr>limit_orders := (limit_orders user)
                             (uuid4 e \<mapsto> order\<lparr>o_shares := s, o_limit_price := p\<rparr>)\<rparr>) }"

definition submit_limit_order ::
  "env \<Rightarrow> account \<Rightarrow> trade_request \<Rightarrow> (error + limit_order) \<times> account" where
  "submit_limit_order e user data =
     (let symbol = str_upper (gate e) (rq_symbol data);
          name = (case rq_name data of Some n \<Rightarrow> n | None \<Rightarrow> symbol);
          shares = rq_shares data;
          limit_price = rq_price data;
          currency = (case rq_currency data of Some c \<Rightarrow> c | None \<Rightarrow> ''USD'')
      in case side_of (str_upper (gate e) (rq_type data)) of
           None \<Rightarrow> (Inl InvalidParameters, user)
         | Some trade_type \<Rightarrow>
      if symbol = [] \<or> shares \<le> 0 \<or> limit_price \<le> 0 then (Inl InvalidParameters, user)
      else
        let total' = decimal_mul shares limit_price;
            order = \<lparr>o_symbol = symbol, o_name = name, o_trade_type = trade_type,
                     o_shares = shares, o_limit_price = limit_price, o_currency = currency,
                     o_status = PENDING, o_created_at = timezone_now e, o_filled_at = None\<rparr>
        in if trade_type = BUY then
             if total' > buying_power user then (Inl InsufficientFunds, user)
             else commit_or_rollback user
               (do { bp \<leftarrow> store_money (decimal_sub (buying_power user) total');
                     create_order e (user\<lparr>buying_power := bp\<rparr>) order })
           else
             (case get_holding (holdings user) symbol of
                None \<Rightarrow> (Inl (NoHoldingForSymbol symbol), user)
              | Some holding \<Rightarrow>
                  if shares > h_shares holding then (Inl InsufficientShares, user)
                  else commit_or_rollback user (create_order e user order)))"

subsection \<open>CancelLimitOrderView.delete\<close>

text \<open>\<^verbatim>\<open>LimitOrder.objects.get(id=order_id, user=user, status='PENDING')\<close>\<close>

definition get_pending_order :: "account \<Rightarrow> nat \<Rightarrow> limit_order option" where
  "get_pending_order user order_id =
     (case limit_orders user order_id of
        Some order \<Rightarrow> if o_status order = PENDING then Some order else None
      | None \<Rightarrow> None)"

text \<open>
  The response carries the buying power of the user object, which after a refund is
  the sum as computed, not as stored.
\<close>

definition cancel_limit_order :: "account \<Rightarrow> nat \<Rightarrow> (error + rat) \<times> account" where
  "cancel_limit_order user order_id =
     (case get_pending_order user order_id of
        None \<Rightarrow> (Inl OrderNotPendingOrNotFound, user)
      | Some order \<Rightarrow>
          let order' = order\<lparr>o_status := CANCELLED\<rparr>;
              refunded = decimal_add (buying_power user)
                           (decimal_mul (o_shares order) (o_limit_price order))
          in
          if o_trade_type order = BUY then
            commit_or_rollback user
              (do { bp \<leftarrow> store_money refunded;
                    Some (Inr refunded,
                          user\<lparr>buying_power := bp,
                               limit_orders := (limit_orders user)(order_id \<mapsto> order')\<rparr>) })
          else (Inr (buying_power user),
                user\<lparr>limit_orders := (limit_orders user)(order_id \<mapsto> order')\<rparr>))"

subsection \<open>FillLimitOrderView.post\<close>

definition fill_limit_order ::
  "env \<Rightarrow> account \<Rightarrow> nat \<Rightarrow> rat \<Rightarrow> (error + trade \<times> limit_order) \<times> account" where
  "fill_limit_order e user order_id current_price =
     (if current_price \<le> 0 then (Inl InvalidParameters, user)
      else case get_pending_order user order_id of
        None \<Rightarrow> (Inl OrderNotPendingOrNotFound, user)
      | Some order \<Rightarrow>
          if o_trade_type order = BUY \<and> current_price > o_limit_price order
          then (Inl (PriceConditionNotMet BUY), user)
          else if o_trade_type order = SELL \<and> current_price < o_limit_price order
          then (Inl (PriceConditionNotMet SELL), user)
          else
            let total' = decimal_mul (o_shares order) current_price;
                cancelled = user\<lparr>limit_orders :=
                              (limit_orders user)(order_id \<mapsto> order\<lparr>o_status := CANCELLED\<rparr>)\<rparr>;
                finish = (\<lambda>u.
                  do { (t, u1) \<leftarrow> create_trade e u (o_symbol order) (o_name order)
                                    (o_trade_type order) (o_shares order) current_price total'
                                    (o_currency order);
                       let order' = order\<lparr>o_status := FILLED,
                                          o_filled_at := Some (timezone_now e)\<rparr>;
                       let u2 = u1\<lparr>limit_orders := (limit_orders u1)(order_id \<mapsto> order')\<rparr>;
                       Some (Inr (t, order'),
                             snd (award_after_trade e u2 (o_trade_type order) (o_symbol order)
                                    current_price)) })
            in if o_trade_type order = BUY then
                 commit_or_rollback user
                   (do { hs \<leftarrow> buy_holding (holdings user) (o_symbol order) (o_name order)
                                 (o_currency order) (o_shares order) current_price;
                         let reserved = decimal_mul (o_shares order) (o_limit_price order);
                         let actual = decimal_mul (o_shares order) current_price;
                         bp \<leftarrow> (if actual < reserved
                                then store_money (decimal_add (buying_power user)
                                                    (decimal_sub reserved actual))
                                else Some (buying_power user));
                         finish (user\<lparr>holdings := hs, buying_power := bp\<rparr>) })
               else
                 (case get_holding (holdings user) (o_symbol order) of
                    None \<Rightarrow> (Inl (NoHoldingForSymbol (o_symbol order)), cancelled)
                  | Some holding \<Rightarrow>
                      if o_shares order > h_shares holding then (Inl InsufficientShares, cancelled)
                      else commit_or_rollback user
                        (do { bp \<leftarrow> store_money (decimal_add (buying_power user) total');
                              hs \<leftarrow> sell_holding (holdings user) holding (o_shares order);
                              finish (user\<lparr>buying_power := bp, holdings := hs\<rparr>) })))"

text \<open>A new account: the starting balance and no rows yet.\<close>

definition new_account :: "string \<Rightarrow> rat \<Rightarrow> user_settings option \<Rightarrow> account" where
  "new_account uname balance st =
     \<lparr>username = uname, buying_power = balance, xp = 0, level = 1, rank = ''Retail Trader'',
      settings = st, holdings = [], trades = [], limit_orders = Map.empty, watchlist = [],
      user_achievements = []\<rparr>"

section \<open>Transfers (TransferFundsView.post, stocks/services/currency_service.py)\<close>

text \<open>
  \<^verbatim>\<open>CurrencyExchangeService.get_rates()\<close> is taken from the environment: the call raises
  (\<open>None\<close>) or returns a dict from currency codes to rates. A rate goes through
  \<^verbatim>\<open>Decimal(str(...))\<close>, which raises for a value that is no number (\<open>None\<close>); a
  missing currency has the rate 1.0. Dividing by a rate of zero raises.
\<close>

type_synonym rates = "string \<rightharpoonup> rat option"

definition rate_of :: "rates \<Rightarrow> string \<Rightarrow> rat option" where
  "rate_of rs c = (case rs c of None \<Rightarrow> Some 1 | Some v \<Rightarrow> v)"

text \<open>\<^verbatim>\<open>CurrencyExchangeService.convert(amount, from_currency, to_currency)\<close>; \<open>None\<close> when it raises.\<close>

definition convert :: "rates option \<Rightarrow> rat \<Rightarrow> string \<Rightarrow> string \<Rightarrow> rat option" where
  "convert get_rates amount from_currency to_currency =
     (if from_currency = to_currency then Some amount
      else do { rs \<leftarrow> get_rates;
                from_rate \<leftarrow> rate_of rs from_currency;
                to_rate \<leftarrow> rate_of rs to_currency;
                if from_rate = 0 then None
                else Some (decimal_mul (decimal_div amount from_rate) to_rate) })"

record transfer =
  x_from_user :: string
  x_to_user :: string
  x_amount :: rat
  x_display_amount :: rat
  x_currency :: string
  x_recipient_currency :: string
  x_recipient_display_amount :: rat
  x_created_at :: nat

record friendship =
  f_from_user :: string
  f_to_user :: string
  f_status :: string

text \<open>
  The rows the transfer view works on: the profiles by username, the friendships and
  the transfers.
\<close>

record bank =
  profiles :: "string \<rightharpoonup> account"
  friendships :: "friendship list"
  transfers :: "transfer list"

text \<open>
  What a transfer request observes: the answer of \<^verbatim>\<open>get_rates()\<close> at the first and at
  the second conversion, and the time.
\<close>

record transfer_env =
  rates_first :: "rates option"
  rates_second :: "rates option"
  transfer_now :: nat

text \<open>
  The body of a transfer request: the recipient's username as it is after
  \<^verbatim>\<open>strip()\<close>, and the amount, \<open>None\<close> when \<^verbatim>\<open>Decimal(str(amount))\<close> raises.
\<close>

record transfer_request =
  to_username :: string
  amount :: "rat option"

definition currency_of :: "account \<Rightarrow> string" where
  "currency_of user =
     (case settings user of
        Some s \<Rightarrow> if us_currency s = [] then ''USD'' else us_currency s
      | None \<Rightarrow> ''USD'')"

definition is_friend :: "bank \<Rightarrow> string \<Rightarrow> string \<Rightarrow> bool" where
  "is_friend db a b =
     list_ex (\<lambda>f. ((f_from_user f = a \<and> f_to_user f = b) \<or> (f_from_user f = b \<and> f_to_user f = a))
                  \<and> f_status f = ''accepted'') (friendships db)"

definition transfer_funds ::
  "transfer_env \<Rightarrow> bank \<Rightarrow> string \<Rightarrow> transfer_request \<Rightarrow> (error + transfer) \<times> bank" where
  "transfer_funds e db uname data =
     (case profiles db uname of
        None \<Rightarrow> (Inl NotAuthenticated, db)
      | Some user \<Rightarrow>
     (case amount data of
        None \<Rightarrow> (Inl InvalidAmount, db)
      | Some amt \<Rightarrow>
          if amt \<le> 0 then (Inl AmountNotPositive, db)
          else if to_username data = [] then (Inl RecipientRequired, db)
          else if uname = to_username data then (Inl SelfTransfer, db)
          else
            (case profiles db (to_username data) of
               None \<Rightarrow> (Inl UserNotFound, db)
             | Some recipient \<Rightarrow>
                 if \<not> is_friend db uname (to_username data) then (Inl NotFriends, db)
                 else
                   let sender_currency = currency_of user;
                       recipient_currency = currency_of recipient
                   in if amt > buying_power user then (Inl InsufficientFunds, db)
                      else
                        (case convert (rates_first e) amt sender_currency recipient_currency of
                           None \<Rightarrow> (Inl CurrencyConversionFailed, db)
                         | Some recipient_amount \<Rightarrow>
                             (case
                                do { s \<leftarrow> store_money (decimal_sub (buying_power user) amt);
                                     r \<leftarrow> store_money (decimal_add (buying_power recipient)
                                                         recipient_amount);
                                     let usd_amount =
                                       (case convert (rates_second e) amt sender_currency ''USD'' of
                                          Some v \<Rightarrow> v | None \<Rightarrow> amt);
                                     a \<leftarrow> store_money usd_amount;
                                     d \<leftarrow> store_money amt;
                                     rd \<leftarrow> store_money recipient_amount;
                                     let x = \<lparr>x_from_user = uname, x_to_user = to_username data,
                                               x_amount = usd_amount, x_display_amount = amt,
                                               x_currency = sender_currency,
                                               x_recipient_currency = recipient_currency,
                                               x_recipient_display_amount = recipient_amount,
                                               x_created_at = transfer_now e\<rparr>;
                                     Some (Inr x,
                                       db\<lparr>profiles := (profiles db)
                                              (uname \<mapsto> user\<lparr>buying_power := s\<rparr>,
                                               to_username data \<mapsto> recipient\<lparr>buying_power := r\<rparr>),
                                          transfers := transfers db
                                            @ [x\<lparr>x_amount := a, x_display_amount := d,
                                                  x_recipient_display_amount := rd\<rparr>]\<rparr>) }
                              of None \<Rightarrow> (Inl DataError, db) | Some res \<Rightarrow> res)))))"

section \<open>Vocabulary of the proofs\<close>

text \<open>Two states of a user agree on everything but XP, level, rank and unlocked achievements.\<close>

definition same_ledger :: "account \<Rightarrow> account \<Rightarrow> bool" where
  "same_ledger u u' =
     (buying_power u' = buying_power u \<and> holdings u' = holdings u \<and> trades u' = trades u
      \<and> limit_orders u' = limit_orders u \<and> settings u' = settings u
      \<and> watchlist u' = watchlist u \<and> username u' = username u)"

text \<open>The symbol, name and currency a request denotes, as the views compute them.\<close>

definition rq_sym :: "env \<Rightarrow> trade_request \<Rightarrow> string" where
  "rq_sym e data = str_upper (gate e) (rq_symbol data)"

definition rq_nm :: "env \<Rightarrow> trade_request \<Rightarrow> string" where
  "rq_nm e data = (case rq_name data of Some n \<Rightarrow> n | None \<Rightarrow> str_upper (gate e) (rq_symbol data))"

definition rq_cur :: "trade_request \<Rightarrow> string" where
  "rq_cur data = (case rq_currency data of Some c \<Rightarrow> c | None \<Rightarrow> ''USD'')"

text \<open>The trade object of a market order and of the fill of an order, as the view holds it.\<close>

definition trade_of :: "env \<Rightarrow> trade_request \<Rightarrow> side \<Rightarrow> trade" where
  "trade_of e data sd =
     \<lparr>t_symbol = rq_sym e data, t_name = rq_nm e data, t_trade_type = sd,
      t_shares = rq_shares data, t_price = rq_price data,
      t_total = decimal_mul (rq_shares data) (rq_price data), t_currency = rq_cur data,
      t_executed_at = timezone_now e\<rparr>"


text \<open>The row of a trade object: shares, price and total at the scale of their columns.\<close>

definition stored_trade :: "trade \<Rightarrow> trade option" where
  "stored_trade t =
     do { s \<leftarrow> store_shares (t_shares t);
          p \<leftarrow> store_price (t_price t);
          m \<leftarrow> store_money (t_total t);
          Some (t\<lparr>t_shares := s, t_price := p, t_total := m\<rparr>) }"

text \<open>The order object of a valid submission, and an order after its fill.\<close>

definition order_of :: "env \<Rightarrow> trade_request \<Rightarrow> side \<Rightarrow> limit_order" where
  "order_of e data sd =
     \<lparr>o_symbol = rq_sym e data, o_name = rq_nm e data, o_trade_type = sd,
      o_shares = rq_shares data, o_limit_price = rq_price data, o_currency = rq_cur data,
      o_status = PENDING, o_created_at = timezone_now e, o_filled_at = None\<rparr>"


section \<open>Example values\<close>

text \<open>
  A time-zone database for the examples: in every zone the weekday of an instant is
  the instant modulo 7 and the time is noon, so that instant 5 is a Saturday. The clock
  shows a Wednesday noon and the market-status service reports an open market. Text is
  ASCII, so \<^verbatim>\<open>str.upper\<close> is \<open>ascii_upper\<close>; the amounts are integers below \<open>2 ^ 53\<close>,
  which a \<^verbatim>\<open>float\<close> represents exactly.
\<close>

definition wednesday_noon :: local_datetime where
  "wednesday_noon = \<lparr>weekday = 2, time_of_day = mk_time 12 0\<rparr>"

definition open_gate :: gate_env where
  "open_gate =
     \<lparr>str_upper = ascii_upper,
      astimezone = (\<lambda>tz d. \<lparr>weekday = nat (instant d mod 7), time_of_day = mk_time 12 0\<rparr>),
      datetime_now = (\<lambda>tz. wednesday_noon),
      get_market_status = (\<lambda>m. Status True None)\<rparr>"

definition a_saturday :: datetime where
  "a_saturday = \<lparr>tzinfo = None, instant = 5\<rparr>"

definition example_holding :: "string \<Rightarrow> holding" where
  "example_holding s = \<lparr>h_symbol = s, h_name = s, h_shares = 1, h_avg_cost = 10, h_currency = ''USD''\<rparr>"

text \<open>An account that holds one share of each of the given symbols.\<close>

definition account_with_holdings :: "string list \<Rightarrow> account" where
  "account_with_holdings syms =
     \<lparr>username = ''alice'', buying_power = 1000, xp = 0, level = 1, rank = ''Retail Trader'',
      settings = None, holdings = map example_holding syms, trades = [],
      limit_orders = Map.empty, watchlist = [], user_achievements = []\<rparr>"

text \<open>
  An environment with an open market and no achievement definitions, a new account with
  100000 of buying power, and the market orders of the AAPL scenario: buy 10 at 150,
  buy 10 at 170, sell 15 at 180; also a sale of 10 at 180.
\<close>

definition open_env :: env where
  "open_env = \<lparr>gate = open_gate, achievements = [], timezone_now = 0, uuid4 = 7,
               to_float = (\<lambda>x. x)\<rparr>"

definition market_order :: "string \<Rightarrow> string \<Rightarrow> rat \<Rightarrow> rat \<Rightarrow> trade_request" where
  "market_order sd smb sh p =
     \<lparr>rq_symbol = smb, rq_name = None, rq_type = sd, rq_shares = sh, rq_price = p,
      rq_currency = None\<rparr>"

definition buy_10_at_150 :: trade_request where
  "buy_10_at_150 = market_order ''BUY'' ''AAPL'' 10 150"

definition buy_10_at_170 :: trade_request where
  "buy_10_at_170 = market_order ''BUY'' ''AAPL'' 10 170"

definition sell_15_at_180 :: trade_request where
  "sell_15_at_180 = market_order ''SELL'' ''AAPL'' 15 180"

definition sell_10_at_180 :: trade_request where
  "sell_10_at_180 = market_order ''SELL'' ''AAPL'' 10 180"

definition alice :: account where
  "alice = new_account ''alice'' 100000 None"

text \<open>
  Two market orders with more decimal places than the columns have: a buy of
  0.000000004 AAPL at 1, and a buy of 1 AAPL at 150.123.
\<close>

definition buy_4_billionths_at_1 :: trade_request where
  "buy_4_billionths_at_1 = market_order ''BUY'' ''AAPL'' (4 / 10 ^ 9) 1"

definition buy_1_at_150_123 :: trade_request where
  "buy_1_at_150_123 = market_order ''BUY'' ''AAPL'' 1 (150123 / 1000)"

text \<open>
  A SELL limit order for 10 AAPL at 200 and a BUY limit order for 10 AAPL at 100, and the
  accounts of a user who bought 10 AAPL, then submitted the SELL order (it got the key 7)
  and then sold the 10 shares at the market: the order is pending and the holding is gone.
\<close>

definition sell_limit_10_at_200 :: trade_request where
  "sell_limit_10_at_200 = market_order ''SELL'' ''AAPL'' 10 200"

definition buy_limit_10_at_100 :: trade_request where
  "buy_limit_10_at_100 = market_order ''BUY'' ''AAPL'' 10 100"

definition alice_bought :: account where
  "alice_bought = snd (execute_trade open_env alice buy_10_at_150)"

definition alice_submitted :: account where
  "alice_submitted = snd (submit_limit_order open_env alice_bought sell_limit_10_at_200)"


text \<open>The account of alice after she submitted the BUY limit order (it got the key 7).\<close>

definition alice_bid :: account where
  "alice_bid = snd (submit_limit_order open_env alice buy_limit_10_at_100)"

text \<open>
  A BUY limit order for 100000000 AAPL at 0.0000006, whose limit has more decimal places
  than the column, and the account of alice after she submitted it (it got the key 7).
\<close>

definition buy_limit_1e8_at_6e_7 :: trade_request where
  "buy_limit_1e8_at_6e_7 = market_order ''BUY'' ''AAPL'' 100000000 (6 / 10 ^ 7)"

definition alice_bid_1e8 :: account where
  "alice_bid_1e8 = snd (submit_limit_order open_env alice buy_limit_1e8_at_6e_7)"

text \<open>
  Three achievement definitions as they are seeded, and a user who has one trade and
  nothing unlocked.
\<close>

definition seeded_env :: env where
  "seeded_env = open_env\<lparr>achievements :=
     [\<lparr>a_id = ''first_trade'', requirement_type = ''trades_count'', requirement_value = 1\<rparr>,
      \<lparr>a_id = ''trader_10'', requirement_type = ''trades_count'', requirement_value = 10\<rparr>,
      \<lparr>a_id = ''early_adopter'', requirement_type = ''special'', requirement_value = 1\<rparr>]\<rparr>"

definition one_trade :: account where
  "one_trade = alice\<lparr>trades :=
     [\<lparr>t_symbol = ''AAPL'', t_name = ''AAPL'', t_trade_type = BUY, t_shares = 10,
       t_price = 150, t_total = 1500, t_currency = ''USD'', t_executed_at = 0\<rparr>]\<rparr>"

section \<open>Verified properties\<close>

subsection \<open>Market gate and symbol validator\<close>

text \<open>
  C10. Crypto detection is by containment, not by suffix: whenever the upper-cased symbol
  contains \<open>-USD\<close> anywhere, \<open>is_market_open\<close> answers open with source \<open>local\<close> for
  every market, every \<open>now\<close> (given or not) and every environment, and
  \<open>is_symbol_valid_for_market\<close> answers valid with an empty message for every market.
\<close>

theorem crypto_by_containment:
  assumes "contains ''-USD'' (str_upper env symbol)"
  shows "is_open (is_market_open env market symbol now) = True
       \<and> source (is_market_open env market symbol now) = ''local''
       \<and> is_symbol_valid_for_market env symbol market' = (True, '''')"
  using assms by (simp add: is_market_open_def is_symbol_valid_for_market_def crypto_open_def)

theorem crypto_by_containment_witness:
  "contains ''-USD'' (str_upper open_gate ''x-usdt'')
   \<and> \<not> endswith (str_upper open_gate ''x-usdt'') ''-USD''
   \<and> is_open (is_market_open open_gate ''US'' ''x-usdt'' (Some a_saturday)) = True
   \<and> source (is_market_open open_gate ''US'' ''x-usdt'' (Some a_saturday)) = ''local''
   \<and> is_symbol_valid_for_market open_gate ''x-usdt'' ''IN'' = (True, '''')"
proof -
  have u: "str_upper open_gate ''x-usdt'' = ''X-USDT''"
    by (simp add: open_gate_def ascii_upper_def upper_char_def)
  have c: "contains ''-USD'' (str_upper open_gate ''x-usdt'')"
    unfolding u by simp
  have n: "\<not> endswith (str_upper open_gate ''x-usdt'') ''-USD''"
    unfolding u by (simp add: endswith_def suffix_to_prefix)
  show ?thesis
    using c n crypto_by_containment [OF c, of "''US''" "Some a_saturday" "''IN''"]
    by simp
qed

text \<open>
  C7. With an explicit \<open>now\<close> neither the market-status service nor the clock is
  consulted: the answer does not change when they are replaced by any others. For a
  symbol that is not crypto the answer is the schedule check's; in particular, when the
  given \<open>now\<close> (read as UTC when it is naive) is a Saturday or Sunday in New York, market
  \<open>US\<close> is reported closed with source \<open>schedule\<close>, whatever the service would say.
  (A crypto symbol is answered before the schedule is looked at, see C10.)
\<close>

theorem explicit_now_schedule_only:
  "is_market_open (env\<lparr>get_market_status := service, datetime_now := clock\<rparr>) market symbol
       (Some now)
     = is_market_open (env\<lparr>get_market_status := service', datetime_now := clock'\<rparr>) market
         symbol (Some now)
   \<and> (\<not> contains ''-USD'' (str_upper env symbol) \<longrightarrow>
        is_market_open env market symbol (Some now) = is_market_open_schedule env market (Some now)
        \<and> (weekday (astimezone env ''America/New_York''
                       (if tzinfo now = None then now\<lparr>tzinfo := Some ''UTC''\<rparr> else now))
              \<in> {5, 6} \<longrightarrow>
             is_open (is_market_open (env\<lparr>get_market_status := service\<rparr>) ''US'' symbol (Some now))
               = False
             \<and> source (is_market_open (env\<lparr>get_market_status := service\<rparr>) ''US'' symbol (Some now))
               = ''schedule''))"
  by (auto simp: is_market_open_def is_market_open_schedule_def localize_def
        MARKET_SCHEDULES_get_def schedule_US_def Let_def)

theorem explicit_now_schedule_only_witness:
  "\<not> contains ''-USD'' (str_upper open_gate ''AAPL'')
   \<and> weekday (astimezone open_gate ''America/New_York''
                (if tzinfo a_saturday = None then a_saturday\<lparr>tzinfo := Some ''UTC''\<rparr>
                 else a_saturday)) \<in> {5, 6}
   \<and> get_market_status open_gate ''US'' = Status True None
   \<and> weekday (datetime_now open_gate ''America/New_York'') = 2
   \<and> is_open (is_market_open open_gate ''US'' ''AAPL'' None) = True
   \<and> is_open (is_market_open open_gate ''US'' ''AAPL'' (Some a_saturday)) = False
   \<and> source (is_market_open open_gate ''US'' ''AAPL'' (Some a_saturday)) = ''schedule''"
proof -
  have u: "str_upper open_gate ''AAPL'' = ''AAPL''"
    by (simp add: open_gate_def ascii_upper_def upper_char_def)
  have c: "\<not> contains ''-USD'' (str_upper open_gate ''AAPL'')"
    unfolding u by simp
  have w: "weekday (astimezone open_gate ''America/New_York''
                (if tzinfo a_saturday = None then a_saturday\<lparr>tzinfo := Some ''UTC''\<rparr>
                 else a_saturday)) \<in> {5, 6}"
    by (simp add: open_gate_def a_saturday_def)
  have g: "open_gate\<lparr>get_market_status := (\<lambda>m. Status True None)\<rparr> = open_gate"
    by (simp add: open_gate_def)
  have s: "get_market_status open_gate ''US'' = Status True None"
    "weekday (datetime_now open_gate ''America/New_York'') = 2"
    by (simp_all add: open_gate_def wednesday_noon_def)
  have o: "is_open (is_market_open open_gate ''US'' ''AAPL'' None) = True"
    using c by (simp add: is_market_open_def Let_def) (simp add: open_gate_def)
  have "is_open (is_market_open (open_gate\<lparr>get_market_status := (\<lambda>m. Status True None)\<rparr>)
                   ''US'' ''AAPL'' (Some a_saturday)) = False
      \<and> source (is_market_open (open_gate\<lparr>get_market_status := (\<lambda>m. Status True None)\<rparr>)
                   ''US'' ''AAPL'' (Some a_saturday)) = ''schedule''"
    using c w explicit_now_schedule_only
      [where env = open_gate and service = "\<lambda>m. Status True None" and market = "''US''"
         and symbol = "''AAPL''" and now = a_saturday and service' = "\<lambda>m. Raises"
         and clock = "\<lambda>tz. wednesday_noon" and clock' = "\<lambda>tz. wednesday_noon"]
    by blast
  then show ?thesis
    using c w s o by (simp add: g)
qed

subsection \<open>XP\<close>

text \<open>
  C8. The XP of a trade is the XP the same trade earns with no holdings at all, plus 150
  exactly when the number of holdings equals 5, plus 250 exactly when it equals 10, and
  plus nothing for any other number (6 and 11 included).
\<close>

theorem milestone_bonus_by_equality:
  "fst (award_trade_xp user trade_type sell_price avg_buy_price)
     = fst (award_trade_xp (user\<lparr>holdings := []\<rparr>) trade_type sell_price avg_buy_price)
       + (if length (holdings user) = 5 then 150
          else if length (holdings user) = 10 then 250 else 0)"
  by (simp add: award_trade_xp_def Let_def XP_5_HOLDINGS_def XP_10_HOLDINGS_def
        XP_TRADE_EXECUTED_def split: side.splits option.splits)

theorem milestone_bonus_by_equality_witness:
  "fst (award_trade_xp (account_with_holdings [''A'', ''B'', ''C'', ''D'', ''E'']) BUY None None) = 175
   \<and> fst (award_trade_xp (account_with_holdings [''A'', ''B'', ''C'', ''D'', ''E'', ''F'']) BUY None None) = 25"
  using milestone_bonus_by_equality
          [of "account_with_holdings [''A'', ''B'', ''C'', ''D'', ''E'']" BUY None None]
        milestone_bonus_by_equality
          [of "account_with_holdings [''A'', ''B'', ''C'', ''D'', ''E'', ''F'']" BUY None None]
  by (simp add: account_with_holdings_def award_trade_xp_def Let_def XP_TRADE_EXECUTED_def
        XP_FIRST_TRADE_BONUS_def)
subsection \<open>Decimal arithmetic on the example amounts\<close>

lemma store_integers:
  "store_money 98500 = Some 98500" "store_money 96800 = Some 96800"
  "store_money 99500 = Some 99500" "store_money 1500 = Some 1500"
  "store_money 1700 = Some 1700" "store_money 2700 = Some 2700"
  "store_money 1800 = Some 1800" "store_money 100300 = Some 100300"
  "store_money 99000 = Some 99000" "store_money 100000 = Some 100000"
  "store_money 2000 = Some 2000" "store_money 100500 = Some 100500"
  "store_shares 10 = Some 10" "store_shares 20 = Some 20" "store_shares 5 = Some 5"
  "store_shares 15 = Some 15"
  "store_price 150 = Some 150" "store_price 160 = Some 160" "store_price 170 = Some 170"
  "store_price 180 = Some 180" "store_price 200 = Some 200" "store_price 100 = Some 100"
  by code_simp+

lemma decimal_integers:
  "decimal_mul 10 150 = 1500" "decimal_sub 100000 1500 = 98500"
  "decimal_mul 10 170 = 1700" "decimal_sub 98500 1700 = 96800"
  "decimal_add 1500 1700 = 3200" "decimal_add 10 10 = 20" "decimal_div 3200 20 = 160"
  "decimal_mul 15 180 = 2700" "decimal_add 96800 2700 = 99500" "decimal_sub 20 15 = 5"
  "decimal_mul 10 180 = 1800" "decimal_add 98500 1800 = 100300" "decimal_sub 10 10 = 0"
  "decimal_mul 10 200 = 2000" "decimal_mul 10 100 = 1000" "decimal_sub 100000 1000 = 99000"
  "decimal_add 98500 2000 = 100500"
  by code_simp+

subsection \<open>Rewards leave the ledger alone\<close>

lemma same_ledger_refl: "same_ledger u u"
  by (simp add: same_ledger_def)

lemma same_ledger_trans: "same_ledger u v \<Longrightarrow> same_ledger v w \<Longrightarrow> same_ledger u w"
  by (simp add: same_ledger_def)

lemma award_xp_ledger: "same_ledger u (award_xp u n)"
  by (simp add: same_ledger_def award_xp_def Let_def split: prod.splits)

lemma award_trade_xp_snd:
  "snd (award_trade_xp u tt sp ab) =
     (if fst (award_trade_xp u tt sp ab) > 0
      then award_xp u (fst (award_trade_xp u tt sp ab)) else u)"
  by (simp add: award_trade_xp_def Let_def)

lemma award_trade_xp_ledger: "same_ledger u (snd (award_trade_xp u tt sp ab))"
  by (simp add: award_trade_xp_snd award_xp_ledger same_ledger_refl)

lemma award_achievement_xp_ledger: "same_ledger u (snd (award_achievement_xp u na))"
  by (simp add: award_achievement_xp_def Let_def award_xp_ledger same_ledger_refl)

lemma check_achievements_ledger: "same_ledger u (snd (check_achievements e u))"
  by (simp add: check_achievements_def Let_def same_ledger_def)

lemma award_after_trade_ledger: "same_ledger u (snd (award_after_trade e u tt s p))"
  unfolding award_after_trade_def Let_def split_beta snd_conv
  by (rule same_ledger_trans [OF check_achievements_ledger
            same_ledger_trans [OF award_trade_xp_ledger award_achievement_xp_ledger]])

lemma same_ledger_holdings: "same_ledger u u' \<Longrightarrow> holdings u' = holdings u"
  by (simp add: same_ledger_def)

lemma same_ledger_trades: "same_ledger u u' \<Longrightarrow> trades u' = trades u"
  by (simp add: same_ledger_def)

lemma same_ledger_buying_power: "same_ledger u u' \<Longrightarrow> buying_power u' = buying_power u"
  by (simp add: same_ledger_def)

lemma same_ledger_limit_orders: "same_ledger u u' \<Longrightarrow> limit_orders u' = limit_orders u"
  by (simp add: same_ledger_def)

lemma same_ledger_settings: "same_ledger u u' \<Longrightarrow> settings u' = settings u"
  by (simp add: same_ledger_def)

lemmas award_after_trade_simps =
  same_ledger_holdings [OF award_after_trade_ledger]
  same_ledger_trades [OF award_after_trade_ledger]
  same_ledger_buying_power [OF award_after_trade_ledger]
  same_ledger_limit_orders [OF award_after_trade_ledger]
  same_ledger_settings [OF award_after_trade_ledger]

subsection \<open>The holdings table\<close>


lemma get_holding_append:
  "get_holding (hs @ [h]) s =
     (case get_holding hs s of Some r \<Rightarrow> Some r
      | None \<Rightarrow> if h_symbol h = s then Some h else None)"
  by (induction hs) (auto simp: get_holding_def)




subsection \<open>The views, branch by branch\<close>

lemma create_trade_stored:
  "create_trade e u s n tt sh p tot c =
     map_option (\<lambda>row. (\<lparr>t_symbol = s, t_name = n, t_trade_type = tt, t_shares = sh,
                           t_price = p, t_total = tot, t_currency = c,
                           t_executed_at = timezone_now e\<rparr>, u\<lparr>trades := trades u @ [row]\<rparr>))
       (stored_trade \<lparr>t_symbol = s, t_name = n, t_trade_type = tt, t_shares = sh,
                           t_price = p, t_total = tot, t_currency = c,
                           t_executed_at = timezone_now e\<rparr>)"
  by (simp add: create_trade_def stored_trade_def Let_def split: bind_splits)

lemma get_pending_order_Some:
  "get_pending_order u i = Some order \<longleftrightarrow> limit_orders u i = Some order \<and> o_status order = PENDING"
  by (auto simp: get_pending_order_def split: option.splits)

lemma fill_invalid_price:
  "current_price \<le> 0 \<Longrightarrow> fill_limit_order e u i current_price = (Inl InvalidParameters, u)"
  by (simp add: fill_limit_order_def)

lemma fill_price_not_met:
  assumes "0 < current_price" "get_pending_order u i = Some order"
    "(o_trade_type order = BUY \<and> current_price > o_limit_price order)
     \<or> (o_trade_type order = SELL \<and> current_price < o_limit_price order)"
  shows "fill_limit_order e u i current_price = (Inl (PriceConditionNotMet (o_trade_type order)), u)"
  using assms by (auto simp: fill_limit_order_def)




lemma execute_trade_buy_ok:
  assumes "side_of (str_upper (gate e) (rq_type d)) = Some BUY" "rq_sym e d \<noteq> []"
    "0 < rq_shares d" "0 < rq_price d"
    "is_open (is_market_open (gate e) (user_market u) (rq_sym e d) None)"
    "fst (is_symbol_valid_for_market (gate e) (rq_sym e d) (user_market u))"
    "decimal_mul (rq_shares d) (rq_price d) \<le> buying_power u"
  shows "execute_trade e u d =
           (case (store_money (decimal_sub (buying_power u)
                                 (decimal_mul (rq_shares d) (rq_price d))),
                  buy_holding (holdings u) (rq_sym e d) (rq_nm e d) (rq_cur d)
                    (rq_shares d) (rq_price d),
                  stored_trade (trade_of e d BUY)) of
              (Some bp, Some hs, Some row) \<Rightarrow>
                (Inr (trade_of e d BUY),
                 snd (award_after_trade e
                        (u\<lparr>buying_power := bp, holdings := hs, trades := trades u @ [row]\<rparr>)
                        BUY (rq_sym e d) (rq_price d)))
            | _ \<Rightarrow> (Inl DataError, u))"
  using assms
  by (simp add: execute_trade_def Let_def create_trade_stored trade_of_def
        rq_sym_def rq_nm_def rq_cur_def not_le [symmetric] commit_or_rollback_def
        split: option.splits)


lemma submit_sell_ok:
  assumes "side_of (str_upper (gate e) (rq_type d)) = Some SELL" "rq_sym e d \<noteq> []"
    "0 < rq_shares d" "0 < rq_price d"
    "get_holding (holdings u) (rq_sym e d) = Some h" "rq_shares d \<le> h_shares h"
    "limit_orders u (uuid4 e) = None"
    "store_shares (rq_shares d) = Some s" "store_price (rq_price d) = Some p"
  shows "submit_limit_order e u d =
           (Inr (order_of e d SELL),
            u\<lparr>limit_orders := (limit_orders u)
                 (uuid4 e \<mapsto> (order_of e d SELL)\<lparr>o_shares := s, o_limit_price := p\<rparr>)\<rparr>)"
  using assms
  by (simp add: submit_limit_order_def Let_def order_of_def rq_sym_def rq_nm_def
        rq_cur_def not_le [symmetric] domIff commit_or_rollback_def create_order_def)

lemma submit_buy_ok:
  assumes "side_of (str_upper (gate e) (rq_type d)) = Some BUY" "rq_sym e d \<noteq> []"
    "0 < rq_shares d" "0 < rq_price d"
    "decimal_mul (rq_shares d) (rq_price d) \<le> buying_power u"
    "limit_orders u (uuid4 e) = None"
    "store_money (decimal_sub (buying_power u) (decimal_mul (rq_shares d) (rq_price d))) = Some bp"
    "store_shares (rq_shares d) = Some s" "store_price (rq_price d) = Some p"
  shows "submit_limit_order e u d =
           (Inr (order_of e d BUY),
            u\<lparr>buying_power := bp,
              limit_orders := (limit_orders u)
                 (uuid4 e \<mapsto> (order_of e d BUY)\<lparr>o_shares := s, o_limit_price := p\<rparr>)\<rparr>)"
  using assms
  by (simp add: submit_limit_order_def Let_def order_of_def rq_sym_def rq_nm_def
        rq_cur_def not_le [symmetric] domIff commit_or_rollback_def create_order_def)

lemma cancel_buy_ok:
  assumes "get_pending_order u i = Some order" "o_trade_type order = BUY"
    "store_money (decimal_add (buying_power u)
                    (decimal_mul (o_shares order) (o_limit_price order))) = Some bp"
  shows "cancel_limit_order u i =
           (Inr (decimal_add (buying_power u)
                   (decimal_mul (o_shares order) (o_limit_price order))),
            u\<lparr>buying_power := bp,
              limit_orders := (limit_orders u)(i \<mapsto> order\<lparr>o_status := CANCELLED\<rparr>)\<rparr>)"
  using assms
  by (simp add: cancel_limit_order_def Let_def commit_or_rollback_def)

subsection \<open>The example accounts\<close>

lemma ascii_upper_examples:
  "ascii_upper ''AAPL'' = ''AAPL''" "ascii_upper ''BUY'' = ''BUY''"
  "ascii_upper ''SELL'' = ''SELL''"
  by (simp_all add: ascii_upper_def upper_char_def)

lemma market_order_fields:
  "rq_sym open_env (market_order sd ''AAPL'' sh p) = ''AAPL''"
  "rq_nm open_env (market_order sd ''AAPL'' sh p) = ''AAPL''"
  "rq_cur (market_order sd smb sh p) = ''USD''"
  "rq_shares (market_order sd smb sh p) = sh"
  "rq_price (market_order sd smb sh p) = p"
  "side_of (str_upper (gate open_env) (rq_type (market_order ''BUY'' smb sh p))) = Some BUY"
  "side_of (str_upper (gate open_env) (rq_type (market_order ''SELL'' smb sh p))) = Some SELL"
  by (simp_all add: market_order_def rq_sym_def rq_nm_def rq_cur_def open_env_def open_gate_def
        ascii_upper_examples side_of_def)

lemma AAPL_valid: "fst (is_symbol_valid_for_market (gate open_env) ''AAPL'' ''US'')"
  by (simp add: is_symbol_valid_for_market_def Let_def open_env_def open_gate_def
        ascii_upper_examples endswith_def suffix_to_prefix)

lemma open_market_for_alice:
  "is_open (is_market_open (gate open_env) ''US'' ''AAPL'' None)"
  by (simp add: is_market_open_def open_env_def open_gate_def ascii_upper_examples
        MARKET_SCHEDULES_get_def schedule_US_def Let_def)

lemma alice_fields:
  "buying_power alice = 100000" "holdings alice = []" "trades alice = []"
  "limit_orders alice = Map.empty" "user_market alice = ''US''"
  by (simp_all add: alice_def new_account_def user_market_def)

lemma open_env_fields: "uuid4 open_env = 7" "timezone_now open_env = 0"
  by (simp_all add: open_env_def)

lemma order_of_fields:
  "o_trade_type (order_of e d sd) = sd"
  "o_status (order_of e d sd) = PENDING"
  "o_shares (order_of e d sd) = rq_shares d"
  "o_limit_price (order_of e d sd) = rq_price d"
  "o_symbol (order_of e d sd) = rq_sym e d"
  by (simp_all add: order_of_def)

lemma stored_example_trades:
  "stored_trade (trade_of open_env buy_10_at_150 BUY) = Some (trade_of open_env buy_10_at_150 BUY)"
  "stored_trade (trade_of open_env sell_10_at_180 SELL) = Some (trade_of open_env sell_10_at_180 SELL)"
  by (simp_all add: stored_trade_def trade_of_def buy_10_at_150_def sell_10_at_180_def
        market_order_fields store_integers decimal_integers)

lemma alice_bought_state:
  "holdings alice_bought =
     [\<lparr>h_symbol = ''AAPL'', h_name = ''AAPL'', h_shares = 10, h_avg_cost = 150,
       h_currency = ''USD''\<rparr>]"
  "buying_power alice_bought = 98500"
  "limit_orders alice_bought = Map.empty"
  "user_market alice_bought = ''US''"
  "trades alice_bought = [trade_of open_env buy_10_at_150 BUY]"
proof -
  have h: "buy_holding [] ''AAPL'' ''AAPL'' ''USD'' 10 150 =
      Some [\<lparr>h_symbol = ''AAPL'', h_name = ''AAPL'', h_shares = 10, h_avg_cost = 150,
             h_currency = ''USD''\<rparr>]"
    by (simp add: buy_holding_def get_or_create_holding_def get_holding_def save_holding_def
          put_holding_def Let_def store_integers)
  have x: "execute_trade open_env alice buy_10_at_150 =
      (Inr (trade_of open_env buy_10_at_150 BUY),
       snd (award_after_trade open_env
              (alice\<lparr>buying_power := 98500,
                 holdings := [\<lparr>h_symbol = ''AAPL'', h_name = ''AAPL'', h_shares = 10,
                               h_avg_cost = 150, h_currency = ''USD''\<rparr>],
                 trades := trades alice @ [trade_of open_env buy_10_at_150 BUY]\<rparr>)
              BUY ''AAPL'' 150))"
    using execute_trade_buy_ok [of open_env buy_10_at_150 alice] open_market_for_alice AAPL_valid
      stored_example_trades(1)
    by (simp add: buy_10_at_150_def market_order_fields alice_fields decimal_integers
          store_integers h)
  show "holdings alice_bought =
     [\<lparr>h_symbol = ''AAPL'', h_name = ''AAPL'', h_shares = 10, h_avg_cost = 150,
       h_currency = ''USD''\<rparr>]"
    unfolding alice_bought_def x snd_conv award_after_trade_simps by simp
  show "buying_power alice_bought = 98500"
    unfolding alice_bought_def x snd_conv award_after_trade_simps by simp
  show "limit_orders alice_bought = Map.empty"
    unfolding alice_bought_def x snd_conv award_after_trade_simps by (simp add: alice_fields)
  have "settings alice_bought = settings alice"
    unfolding alice_bought_def x snd_conv award_after_trade_simps by simp
  then show "user_market alice_bought = ''US''"
    using alice_fields(5) by (simp add: user_market_def)
  show "trades alice_bought = [trade_of open_env buy_10_at_150 BUY]"
    unfolding alice_bought_def x snd_conv award_after_trade_simps by (simp add: alice_fields)
qed

lemma alice_submitted_state:
  "holdings alice_submitted =
     [\<lparr>h_symbol = ''AAPL'', h_name = ''AAPL'', h_shares = 10, h_avg_cost = 150,
       h_currency = ''USD''\<rparr>]"
  "buying_power alice_submitted = 98500"
  "limit_orders alice_submitted = [7 \<mapsto> order_of open_env sell_limit_10_at_200 SELL]"
  "user_market alice_submitted = ''US''"
  "trades alice_submitted = [trade_of open_env buy_10_at_150 BUY]"
proof -
  have x: "submit_limit_order open_env alice_bought sell_limit_10_at_200 =
      (Inr (order_of open_env sell_limit_10_at_200 SELL),
       alice_bought\<lparr>limit_orders := (limit_orders alice_bought)
          (7 \<mapsto> order_of open_env sell_limit_10_at_200 SELL)\<rparr>)"
    using submit_sell_ok
          [where h = "\<lparr>h_symbol = ''AAPL'', h_name = ''AAPL'', h_shares = 10, h_avg_cost = 150,
                        h_currency = ''USD''\<rparr>" and u = alice_bought and e = open_env
             and d = sell_limit_10_at_200 and s = 10 and p = 200]
    by (simp add: sell_limit_10_at_200_def market_order_fields alice_bought_state
          get_holding_def open_env_fields store_integers order_of_def)
  show "holdings alice_submitted =
     [\<lparr>h_symbol = ''AAPL'', h_name = ''AAPL'', h_shares = 10, h_avg_cost = 150,
       h_currency = ''USD''\<rparr>]"
    by (simp add: alice_submitted_def x alice_bought_state)
  show "buying_power alice_submitted = 98500"
    by (simp add: alice_submitted_def x alice_bought_state)
  show "limit_orders alice_submitted = [7 \<mapsto> order_of open_env sell_limit_10_at_200 SELL]"
    by (simp add: alice_submitted_def x alice_bought_state)
  show "user_market alice_submitted = ''US''"
    using alice_bought_state(4) by (simp add: alice_submitted_def x user_market_def)
  show "trades alice_submitted = [trade_of open_env buy_10_at_150 BUY]"
    by (simp add: alice_submitted_def x alice_bought_state)
qed


lemma alice_bid_state:
  "buying_power alice_bid = 99000"
  "limit_orders alice_bid = [7 \<mapsto> order_of open_env buy_limit_10_at_100 BUY]"
  "holdings alice_bid = []"
  "trades alice_bid = []"
proof -
  have x: "submit_limit_order open_env alice buy_limit_10_at_100 =
      (Inr (order_of open_env buy_limit_10_at_100 BUY),
       alice\<lparr>buying_power := 99000,
          limit_orders := (limit_orders alice)
            (7 \<mapsto> order_of open_env buy_limit_10_at_100 BUY)\<rparr>)"
    using submit_buy_ok [where u = alice and e = open_env and d = buy_limit_10_at_100
        and bp = 99000 and s = 10 and p = 100]
    by (simp add: buy_limit_10_at_100_def market_order_fields alice_fields open_env_fields
          decimal_integers store_integers order_of_def)
  show "buying_power alice_bid = 99000"
    by (simp add: alice_bid_def x)
  show "limit_orders alice_bid = [7 \<mapsto> order_of open_env buy_limit_10_at_100 BUY]"
    by (simp add: alice_bid_def x alice_fields)
  show "holdings alice_bid = []"
    by (simp add: alice_bid_def x alice_fields)
  show "trades alice_bid = []"
    by (simp add: alice_bid_def x alice_fields)
qed





text \<open>
  C4, as the code has it. For a pending order and a price that violates its limit (above
  the limit of a BUY order, below the limit of a SELL order) the fill fails and the
  account is left exactly as it was: the order is still PENDING, and buying power,
  holdings and the trade log are unchanged. The failure is \<open>PriceConditionNotMet\<close>
  when the price is positive; a price that is not positive is rejected before the order
  is looked at, as \<open>InvalidParameters\<close> ("Invalid current price").
\<close>

theorem fill_price_violation:
  assumes "get_pending_order u i = Some order"
    "(o_trade_type order = BUY \<and> cp > o_limit_price order)
     \<or> (o_trade_type order = SELL \<and> cp < o_limit_price order)"
  shows "fill_limit_order e u i cp =
           (Inl (if cp \<le> 0 then InvalidParameters
                 else PriceConditionNotMet (o_trade_type order)), u)
         \<and> get_pending_order (snd (fill_limit_order e u i cp)) i = Some order"
proof (cases "cp \<le> 0")
  case True
  then show ?thesis using assms(1) by (simp add: fill_invalid_price)
next
  case False
  then have "0 < cp" by simp
  then show ?thesis
    using fill_price_not_met [OF _ assms, of e] assms(1) False by simp
qed

theorem fill_price_violation_witness:
  "get_pending_order alice_submitted 7 = Some (order_of open_env sell_limit_10_at_200 SELL)
   \<and> o_trade_type (order_of open_env sell_limit_10_at_200 SELL) = SELL
   \<and> 150 < o_limit_price (order_of open_env sell_limit_10_at_200 SELL)
   \<and> fill_limit_order open_env alice_submitted 7 150
        = (Inl (PriceConditionNotMet SELL), alice_submitted)
   \<and> get_pending_order alice_bid 7 = Some (order_of open_env buy_limit_10_at_100 BUY)
   \<and> o_trade_type (order_of open_env buy_limit_10_at_100 BUY) = BUY
   \<and> o_limit_price (order_of open_env buy_limit_10_at_100 BUY) < 120
   \<and> fill_limit_order open_env alice_bid 7 120 = (Inl (PriceConditionNotMet BUY), alice_bid)"
proof -
  let ?o = "order_of open_env sell_limit_10_at_200 SELL"
  let ?b = "order_of open_env buy_limit_10_at_100 BUY"
  have f: "o_trade_type ?o = SELL" "o_limit_price ?o = 200"
    "o_trade_type ?b = BUY" "o_limit_price ?b = 100"
    by (simp_all add: order_of_fields sell_limit_10_at_200_def buy_limit_10_at_100_def
          market_order_fields)
  have q: "get_pending_order alice_submitted 7 = Some ?o"
    by (simp add: get_pending_order_def alice_submitted_state order_of_fields)
  have r: "get_pending_order alice_bid 7 = Some ?b"
    by (simp add: get_pending_order_def alice_bid_state order_of_fields)
  show ?thesis
    using fill_price_violation [of alice_submitted 7 ?o 150 open_env]
      fill_price_violation [of alice_bid 7 ?b 120 open_env] q r
    by (simp add: f)
qed

text \<open>
  The claim as it is written fails for a price that is not positive: alice's SELL order
  with limit 200 is pending and the price 0 is below the limit, yet the fill fails with
  "Invalid current price", not with a price-condition failure.
\<close>

theorem fill_nonpositive_price_counterexample:
  "get_pending_order alice_submitted 7 = Some (order_of open_env sell_limit_10_at_200 SELL)
   \<and> o_trade_type (order_of open_env sell_limit_10_at_200 SELL) = SELL
   \<and> 0 < o_limit_price (order_of open_env sell_limit_10_at_200 SELL)
   \<and> fst (fill_limit_order open_env alice_submitted 7 0) = Inl InvalidParameters
   \<and> fst (fill_limit_order open_env alice_submitted 7 0) \<noteq> Inl (PriceConditionNotMet SELL)
   \<and> fst (fill_limit_order open_env alice_submitted 7 0) \<noteq> Inl (PriceConditionNotMet BUY)"
proof -
  let ?o = "order_of open_env sell_limit_10_at_200 SELL"
  have f: "o_trade_type ?o = SELL" "o_limit_price ?o = 200"
    by (simp_all add: order_of_fields sell_limit_10_at_200_def market_order_fields)
  have q: "get_pending_order alice_submitted 7 = Some ?o"
    by (simp add: get_pending_order_def alice_submitted_state order_of_fields)
  show ?thesis
    using q by (simp add: f fill_invalid_price)
qed


end
